theory Spec2Isabelle
  imports Main "HOL-Library.Word"
begin

section \<open>JavaScript values\<close>

text \<open>
  The chaining library is generic in the values it carries, so the embedding needs the
  values of the language itself. The model covers the primitives, the wrapper objects
  \<open>new String(s)\<close>, \<open>new Number(n)\<close> and \<open>new Boolean(b)\<close>, and arrays and object
  literals built from all of these.

  \<^item> A number is a double. The model has the integers from \<open>-2^53\<close> to \<open>2^53 - 1\<close>
    (\<open>Integer w\<close>, read by \<open>sint\<close>), each of which is a double and is printed by the
    language in plain decimal digits, and the three non-finite values. Both zeros are
    \<open>Integer 0\<close>: neither \<open>===\<close> nor \<open>JSON.stringify\<close> tells them apart. Fractions and
    larger magnitudes are outside the model.
  \<^item> A string is a list of code units (here the 8-bit range).
  \<^item> An object literal is the list of its own enumerable properties in the order in which
    the language enumerates them; its keys are distinct.
  \<^item> Functions, symbols, dates, maps, class instances and objects with a \<open>toJSON\<close> method
    are outside the model. No statement below rests on their absence.
\<close>

datatype number = Integer "54 word" | NaN | PosInfinity | NegInfinity

datatype prim =
    JUndefined
  | JNull
  | JBoolean bool
  | JNumber number
  | JBigInt int
  | JString string

datatype jsval =
    Prim prim
  | JStringObject string
  | JNumberObject number
  | JBooleanObject bool
  | JArray "jsval list"
  | JObject "(string \<times> jsval) list"

text \<open>What a JavaScript \<open>throw\<close> carries: a \<open>TypeError\<close> of the runtime, or any value.\<close>

datatype exn = TypeError | Thrown jsval

text \<open>Short names for the literals that the statements below use.\<close>

abbreviation js_undefined :: jsval where
  "js_undefined \<equiv> Prim JUndefined"

abbreviation js_null :: jsval where
  "js_null \<equiv> Prim JNull"

abbreviation js_num :: "int \<Rightarrow> jsval" where
  "js_num i \<equiv> Prim (JNumber (Integer (word_of_int i)))"

abbreviation js_str :: "string \<Rightarrow> jsval" where
  "js_str t \<equiv> Prim (JString t)"

abbreviation js_bigint :: "int \<Rightarrow> jsval" where
  "js_bigint i \<equiv> Prim (JBigInt i)"

text \<open>The \<open>typeof\<close> operator.\<close>

fun typeof :: "jsval \<Rightarrow> string" where
  "typeof (Prim JUndefined) = ''undefined''"
| "typeof (Prim JNull) = ''object''"
| "typeof (Prim (JBoolean b)) = ''boolean''"
| "typeof (Prim (JNumber n)) = ''number''"
| "typeof (Prim (JBigInt i)) = ''bigint''"
| "typeof (Prim (JString s)) = ''string''"
| "typeof (JStringObject s) = ''object''"
| "typeof (JNumberObject n) = ''object''"
| "typeof (JBooleanObject b) = ''object''"
| "typeof (JArray xs) = ''object''"
| "typeof (JObject kvs) = ''object''"

text \<open>
  Strict equality \<open>p === v\<close> with a primitive on the left. Equal types compare by value,
  \<open>NaN\<close> is equal to nothing, and an object of any kind on the right is never equal to
  a primitive. (With an object on the left \<open>===\<close> is reference identity; \<open>isNullish\<close>
  never evaluates that case.)
\<close>

fun number_equals :: "number \<Rightarrow> number \<Rightarrow> bool" where
  "number_equals NaN y = False"
| "number_equals x NaN = False"
| "number_equals x y = (x = y)"

fun prim_equals :: "prim \<Rightarrow> prim \<Rightarrow> bool" where
  "prim_equals JUndefined JUndefined = True"
| "prim_equals JNull JNull = True"
| "prim_equals (JBoolean a) (JBoolean b) = (a = b)"
| "prim_equals (JNumber a) (JNumber b) = number_equals a b"
| "prim_equals (JBigInt a) (JBigInt b) = (a = b)"
| "prim_equals (JString a) (JString b) = (a = b)"
| "prim_equals p q = False"

fun strict_equals :: "prim \<Rightarrow> jsval \<Rightarrow> bool" where
  "strict_equals p (Prim q) = prim_equals p q"
| "strict_equals p (JStringObject s) = False"
| "strict_equals p (JNumberObject n) = False"
| "strict_equals p (JBooleanObject b) = False"
| "strict_equals p (JArray xs) = False"
| "strict_equals p (JObject kvs) = False"

section \<open>\<open>JSON.stringify\<close>\<close>

text \<open>
  \<open>JSON.stringify(v)\<close> with one argument, after the language standard
  (SerializeJSONProperty, SerializeJSONArray, SerializeJSONObject, QuoteJSONString):
  the result is a string, or \<open>undefined\<close> (\<open>None\<close>) for \<open>undefined\<close> at the top, or
  a \<open>TypeError\<close> when a BigInt is met anywhere in the value. Inside an array
  \<open>undefined\<close> is written \<open>null\<close>; a property whose value is \<open>undefined\<close> is left out.
  A wrapper object is serialised as the primitive it wraps.
\<close>

definition digit_char :: "nat \<Rightarrow> char" where
  "digit_char d = ''0123456789'' ! (d mod 10)"

fun digits :: "nat \<Rightarrow> string" where
  "digits n = (if n < 10 then [digit_char n] else digits (n div 10) @ [digit_char (n mod 10)])"

declare digits.simps [simp del]

fun number_to_string :: "number \<Rightarrow> string" where
  "number_to_string (Integer w) =
     (if sint w < 0 then CHR ''-'' # digits (nat (- sint w)) else digits (nat (sint w)))"
| "number_to_string NaN = ''NaN''"
| "number_to_string PosInfinity = ''Infinity''"
| "number_to_string NegInfinity = ''-Infinity''"

definition hex_char :: "nat \<Rightarrow> char" where
  "hex_char d = ''0123456789abcdef'' ! (d mod 16)"

definition quoteJSONChar :: "char \<Rightarrow> string" where
  "quoteJSONChar c =
     (if c = CHR 0x22 then [CHR 0x5C, CHR 0x22]
      else if c = CHR 0x5C then [CHR 0x5C, CHR 0x5C]
      else if c = CHR 0x08 then [CHR 0x5C, CHR ''b'']
      else if c = CHR 0x09 then [CHR 0x5C, CHR ''t'']
      else if c = CHR 0x0A then [CHR 0x5C, CHR ''n'']
      else if c = CHR 0x0C then [CHR 0x5C, CHR ''f'']
      else if c = CHR 0x0D then [CHR 0x5C, CHR ''r'']
      else if (of_char c :: nat) < 32
        then [CHR 0x5C, CHR ''u'', CHR ''0'', CHR ''0'',
              hex_char (of_char c div 16), hex_char (of_char c mod 16)]
      else [c])"

definition quoteJSONString :: "string \<Rightarrow> string" where
  "quoteJSONString s = CHR 0x22 # concat (map quoteJSONChar s) @ [CHR 0x22]"

fun join_comma :: "string list \<Rightarrow> string" where
  "join_comma [] = []"
| "join_comma [s] = s"
| "join_comma (s # t # ss) = s @ CHR '','' # join_comma (t # ss)"

fun serializePrim :: "prim \<Rightarrow> exn + string option" where
  "serializePrim JUndefined = Inr None"
| "serializePrim JNull = Inr (Some ''null'')"
| "serializePrim (JBoolean b) = Inr (Some (if b then ''true'' else ''false''))"
| "serializePrim (JNumber (Integer i)) = Inr (Some (number_to_string (Integer i)))"
| "serializePrim (JNumber n) = Inr (Some ''null'')"
| "serializePrim (JBigInt i) = Inl TypeError"
| "serializePrim (JString s) = Inr (Some (quoteJSONString s))"

fun serializeJSONProperty :: "jsval \<Rightarrow> exn + string option"
and serializeJSONArray :: "jsval list \<Rightarrow> exn + string list"
and serializeJSONObject :: "(string \<times> jsval) list \<Rightarrow> exn + string list"
where
  "serializeJSONProperty (Prim p) = serializePrim p"
| "serializeJSONProperty (JStringObject s) = serializePrim (JString s)"
| "serializeJSONProperty (JNumberObject n) = serializePrim (JNumber n)"
| "serializeJSONProperty (JBooleanObject b) = serializePrim (JBoolean b)"
| "serializeJSONProperty (JArray xs) =
     (case serializeJSONArray xs of
        Inl e \<Rightarrow> Inl e
      | Inr partial \<Rightarrow> Inr (Some (CHR ''['' # join_comma partial @ '']'')))"
| "serializeJSONProperty (JObject kvs) =
     (case serializeJSONObject kvs of
        Inl e \<Rightarrow> Inl e
      | Inr partial \<Rightarrow> Inr (Some (CHR ''{'' # join_comma partial @ ''}'')))"
| "serializeJSONArray [] = Inr []"
| "serializeJSONArray (x # xs) =
     (case serializeJSONProperty x of
        Inl e \<Rightarrow> Inl e
      | Inr strP \<Rightarrow>
          (case serializeJSONArray xs of
             Inl e \<Rightarrow> Inl e
           | Inr partial \<Rightarrow>
               Inr ((case strP of None \<Rightarrow> ''null'' | Some s \<Rightarrow> s) # partial)))"
| "serializeJSONObject [] = Inr []"
| "serializeJSONObject ((k, v) # kvs) =
     (case serializeJSONProperty v of
        Inl e \<Rightarrow> Inl e
      | Inr strP \<Rightarrow>
          (case serializeJSONObject kvs of
             Inl e \<Rightarrow> Inl e
           | Inr partial \<Rightarrow>
               Inr ((case strP of
                       None \<Rightarrow> []
                     | Some s \<Rightarrow> [quoteJSONString k @ CHR '':'' # s]) @ partial)))"

definition JSON_stringify :: "jsval \<Rightarrow> exn + string option" where
  "JSON_stringify v = serializeJSONProperty v"

section \<open>The nullish predicate\<close>

text \<open>
  \<^verbatim>\<open>
  nullishTypes.some((nullish) => {
    if (nullish !== null && typeof nullish === "object") {
      return JSON.stringify(nullish) === JSON.stringify(argument);
    }
    return nullish === argument;
  })
  \<close>
  \<open>nullish_callback\<close> is the arrow function given to \<open>some\<close>. Its guard holds exactly of
  the values that are not primitives, so the model branches on the constructor; \<open>composite_guard\<close>
  below says so. The two serialisations are compared as JavaScript compares them:
  two strings, or \<open>undefined\<close> with \<open>undefined\<close>. The marker is serialised first.
\<close>

definition composite :: "jsval \<Rightarrow> bool" where
  "composite nullish = (case nullish of Prim p \<Rightarrow> False | _ \<Rightarrow> True)"

definition nullish_callback :: "jsval \<Rightarrow> jsval \<Rightarrow> exn + bool" where
  "nullish_callback argument nullish =
     (case nullish of
        Prim p \<Rightarrow> Inr (strict_equals p argument)
      | _ \<Rightarrow>
          (case JSON_stringify nullish of
             Inl e \<Rightarrow> Inl e
           | Inr a \<Rightarrow>
               (case JSON_stringify argument of
                  Inl e \<Rightarrow> Inl e
                | Inr b \<Rightarrow> Inr (a = b))))"

text \<open>\<open>Array.prototype.some\<close>: left to right, stopping at the first \<open>true\<close> or throw.\<close>

fun some :: "('a \<Rightarrow> exn + bool) \<Rightarrow> 'a list \<Rightarrow> exn + bool" where
  "some f [] = Inr False"
| "some f (x # xs) =
     (case f x of
        Inl e \<Rightarrow> Inl e
      | Inr True \<Rightarrow> Inr True
      | Inr False \<Rightarrow> some f xs)"

definition isNullish :: "jsval \<Rightarrow> jsval list \<Rightarrow> exn + bool" where
  "isNullish argument nullishTypes = some (nullish_callback argument) nullishTypes"

section \<open>User functions and the world they act on\<close>

text \<open>
  A user function is called with an argument list and either returns or throws; it may
  read and write program state of its own (the \<open>store\<close>). A function call of the
  source, \<open>callback(...args)\<close>, is \<open>invoke\<close>: it runs the function on the store and
  records the argument list in \<open>calls\<close>, the way a test spy does, so that "the function
  was not called" is a statement about the world.
\<close>

record 's world =
  calls :: "jsval list list"
  store :: 's

type_synonym ('s, 'r) fn = "jsval list \<Rightarrow> 's \<Rightarrow> (exn + 'r) \<times> 's"

type_synonym 's callback = "('s, jsval) fn"

definition invoke :: "('s, 'r) fn \<Rightarrow> jsval list \<Rightarrow> 's world \<Rightarrow> (exn + 'r) \<times> 's world" where
  "invoke callback args w =
     (case callback args (store w) of
        (r, s) \<Rightarrow> (r, \<lparr>calls = calls w @ [args], store = s\<rparr>))"

section \<open>The synchronous chain (\<open>monad.ts\<close>)\<close>

text \<open>
  \<^verbatim>\<open>
  bind = (callback, nullishTypes, firstArgument, ...rest) => {
    if (isNullish(firstArgument, nullishTypes)) return firstArgument;
    return callback(...[firstArgument, ...rest]);
  }
  \<close>
\<close>

definition bind ::
  "'s callback \<Rightarrow> jsval list \<Rightarrow> jsval \<Rightarrow> jsval list \<Rightarrow> 's world \<Rightarrow> (exn + jsval) \<times> 's world"
where
  "bind callback nullishTypes firstArgument rest w =
     (case isNullish firstArgument nullishTypes of
        Inl e \<Rightarrow> (Inl e, w)
      | Inr True \<Rightarrow> (Inr firstArgument, w)
      | Inr False \<Rightarrow> invoke callback (firstArgument # rest) w)"

text \<open>
  \<open>pipe(prev, nullishTypes)\<close> returns a closure over its two arguments: \<open>Pipe prev
  nullishTypes\<close> is that closure, and \<open>pipe\<close> is its body, applied to \<open>(callback,
  ...rest)\<close>. A step is the object \<open>{ value, pipe }\<close>.
\<close>

datatype pipe_closure = Pipe jsval "jsval list"

record step =
  step_value :: jsval
  step_pipe :: pipe_closure

fun pipe ::
  "pipe_closure \<Rightarrow> 's callback \<Rightarrow> jsval list \<Rightarrow> 's world \<Rightarrow> (exn + step) \<times> 's world"
where
  "pipe (Pipe prev nullishTypes) callback rest w =
     (case bind callback nullishTypes prev rest w of
        (Inl e, w') \<Rightarrow> (Inl e, w')
      | (Inr v, w') \<Rightarrow> (Inr \<lparr>step_value = v, step_pipe = Pipe v nullishTypes\<rparr>, w'))"

definition monad :: "jsval \<Rightarrow> jsval list \<Rightarrow> step" where
  "monad firstArgument nullishTypes =
     \<lparr>step_value = firstArgument, step_pipe = Pipe firstArgument nullishTypes\<rparr>"

definition monadRun ::
  "'s callback \<Rightarrow> jsval \<Rightarrow> jsval list \<Rightarrow> 's world \<Rightarrow> (exn + step) \<times> 's world"
where
  "monadRun callback firstArgument rest w =
     (let nullishTypes = [Prim JUndefined]
      in pipe (step_pipe (monad firstArgument nullishTypes)) callback rest w)"

definition monadSetup ::
  "jsval list \<Rightarrow> 's callback \<Rightarrow> jsval \<Rightarrow> jsval list \<Rightarrow> 's world \<Rightarrow> (exn + step) \<times> 's world"
where
  "monadSetup nullishTypes callback firstArgument rest w =
     pipe (step_pipe (monad firstArgument nullishTypes)) callback rest w"

text \<open>
  A chain is the expression \<open>st.pipe(f1, ...r1).pipe(f2, ...r2)...\<close>: each stage is a user
  function with its extra arguments. A throw leaves the expression at once.
\<close>

type_synonym 's stage = "'s callback \<times> jsval list"

fun chain :: "step \<Rightarrow> 's stage list \<Rightarrow> 's world \<Rightarrow> (exn + step) \<times> 's world" where
  "chain st [] w = (Inr st, w)"
| "chain st ((callback, rest) # stages) w =
     (case pipe (step_pipe st) callback rest w of
        (Inl e, w') \<Rightarrow> (Inl e, w')
      | (Inr st', w') \<Rightarrow> chain st' stages w')"

section \<open>The asynchronous chain (\<open>monadAsync.ts\<close>)\<close>

text \<open>
  A promise is represented by the state it settles to; the value of a fulfilled promise
  is never itself a promise (the runtime resolves a promise with a promise by adopting its
  state). Time is abstracted: the model says to what a promise settles and what the user
  functions did to the world by then, in the order of the chain, not when. A promise that
  never settles is outside the model.

  \<^item> \<open>awaitable\<close> is \<open>SyncOrPromise<T>\<close>: an immediate value or a promise.
  \<^item> \<open>await\<close> is \<open>await p\<close>: the value, or the rejection thrown.
  \<^item> \<open>async_return\<close> is how the promise of an \<open>async\<close> function is settled by its body:
    a throw rejects it, a returned value fulfils it, a returned promise is adopted.
  \<^item> \<open>Promise_resolve\<close> is \<open>Promise.resolve(x)\<close>: a promise is returned as it is.
\<close>

datatype promise = Fulfilled jsval | Rejected exn

datatype awaitable = Now jsval | Later promise

type_synonym 's callback_async = "('s, awaitable) fn"

fun await :: "promise \<Rightarrow> exn + jsval" where
  "await (Fulfilled v) = Inr v"
| "await (Rejected e) = Inl e"

fun Promise_resolve :: "awaitable \<Rightarrow> promise" where
  "Promise_resolve (Now v) = Fulfilled v"
| "Promise_resolve (Later p) = p"

fun async_return :: "exn + awaitable \<Rightarrow> promise" where
  "async_return (Inl e) = Rejected e"
| "async_return (Inr a) = Promise_resolve a"

text \<open>
  \<^verbatim>\<open>
  bindAsync = async (callback, nullishTypes, firstArgument, ...rest) => {
    let unwrappedFirst = firstArgument;
    if (unwrappedFirst instanceof Promise) unwrappedFirst = await unwrappedFirst;
    if (isNullish(unwrappedFirst, nullishTypes)) return unwrappedFirst;
    const args = [unwrappedFirst, ...rest];
    return callback(...args);
  }
  \<close>
\<close>

definition bindAsync ::
  "'s callback_async \<Rightarrow> jsval list \<Rightarrow> awaitable \<Rightarrow> jsval list \<Rightarrow> 's world
     \<Rightarrow> promise \<times> 's world"
where
  "bindAsync callback nullishTypes firstArgument rest w =
     (case (case firstArgument of Now v \<Rightarrow> Inr v | Later p \<Rightarrow> await p) of
        Inl e \<Rightarrow> (Rejected e, w)
      | Inr unwrappedFirst \<Rightarrow>
          (case isNullish unwrappedFirst nullishTypes of
             Inl e \<Rightarrow> (Rejected e, w)
           | Inr True \<Rightarrow> (Fulfilled unwrappedFirst, w)
           | Inr False \<Rightarrow>
               (case invoke callback (unwrappedFirst # rest) w of
                  (r, w') \<Rightarrow> (async_return r, w'))))"

datatype pipe_async_closure = PipeAsync awaitable "jsval list"

record step_async =
  async_value :: promise
  async_pipe :: pipe_async_closure

fun pipeAsync ::
  "pipe_async_closure \<Rightarrow> 's callback_async \<Rightarrow> jsval list \<Rightarrow> 's world
     \<Rightarrow> step_async \<times> 's world"
where
  "pipeAsync (PipeAsync prev nullishTypes) callback rest w =
     (case bindAsync callback nullishTypes prev rest w of
        (v, w') \<Rightarrow>
          (\<lparr>async_value = Promise_resolve (Later v),
            async_pipe = PipeAsync (Later v) nullishTypes\<rparr>, w'))"

definition monadAsync :: "awaitable \<Rightarrow> jsval list \<Rightarrow> step_async" where
  "monadAsync firstArgument nullishTypes =
     \<lparr>async_value = Promise_resolve firstArgument,
      async_pipe = PipeAsync firstArgument nullishTypes\<rparr>"

definition monadAsyncRun ::
  "'s callback_async \<Rightarrow> awaitable \<Rightarrow> jsval list \<Rightarrow> 's world \<Rightarrow> step_async \<times> 's world"
where
  "monadAsyncRun callback firstArgument rest w =
     (let nullishTypes = [Prim JUndefined]
      in pipeAsync (async_pipe (monadAsync firstArgument nullishTypes)) callback rest w)"

definition monadAsyncSetup ::
  "jsval list \<Rightarrow> 's callback_async \<Rightarrow> awaitable \<Rightarrow> jsval list \<Rightarrow> 's world
     \<Rightarrow> step_async \<times> 's world"
where
  "monadAsyncSetup nullishTypes callback firstArgument rest w =
     pipeAsync (async_pipe (monadAsync firstArgument nullishTypes)) callback rest w"

type_synonym 's stage_async = "'s callback_async \<times> jsval list"

fun chainAsync ::
  "step_async \<Rightarrow> 's stage_async list \<Rightarrow> 's world \<Rightarrow> step_async \<times> 's world"
where
  "chainAsync st [] w = (st, w)"
| "chainAsync st ((callback, rest) # stages) w =
     (case pipeAsync (async_pipe st) callback rest w of
        (st', w') \<Rightarrow> chainAsync st' stages w')"

section \<open>Notions the properties are stated with\<close>

text \<open>
  What an async-capable user function gives once its result has settled: a thrown
  exception and a rejected promise are the same failure, a returned value and a promise
  fulfilled with it the same value. \<open>settled g\<close> is the synchronous function that
  \<open>g\<close> behaves like, and \<open>same_behaviour\<close> relates a stage of a synchronous chain to
  a stage of an asynchronous one that does the same.
\<close>

fun settle_result :: "exn + awaitable \<Rightarrow> exn + jsval" where
  "settle_result (Inl e) = Inl e"
| "settle_result (Inr (Now v)) = Inr v"
| "settle_result (Inr (Later p)) = await p"

definition settled :: "'s callback_async \<Rightarrow> 's callback" where
  "settled g args s = (case g args s of (r, s') \<Rightarrow> (settle_result r, s'))"

definition same_behaviour :: "'s stage \<Rightarrow> 's stage_async \<Rightarrow> bool" where
  "same_behaviour sf sg =
     (snd sf = snd sg \<and> (\<forall>args s. fst sf args s = settled (fst sg) args s))"

text \<open>
  The synchronous stage that an asynchronous stage behaves like, the value of the step a
  chain ends with, and a synchronous chain run from the outcome of an earlier step: after
  a failure nothing more is called.
\<close>

definition sync_stage :: "'s stage_async \<Rightarrow> 's stage" where
  "sync_stage sg = (settled (fst sg), snd sg)"

fun chain_value :: "exn + step \<Rightarrow> exn + jsval" where
  "chain_value (Inl e) = Inl e"
| "chain_value (Inr st) = Inr (step_value st)"

fun chain_from ::
  "exn + jsval \<Rightarrow> jsval list \<Rightarrow> 's stage list \<Rightarrow> 's world \<Rightarrow> (exn + jsval) \<times> 's world"
where
  "chain_from (Inl e) M stages w = (Inl e, w)"
| "chain_from (Inr v) M stages w =
     (case chain (monad v M) stages w of (r, w') \<Rightarrow> (chain_value r, w'))"

text \<open>The promise that a synchronous outcome corresponds to.\<close>

fun promise_of :: "exn + jsval \<Rightarrow> promise" where
  "promise_of (Inl e) = Rejected e"
| "promise_of (Inr v) = Fulfilled v"

text \<open>
  The left-to-right composition of the user functions of a chain, with no nullish check
  at all: each function is called on the result of the one before it, followed by the
  extra arguments of its stage.
\<close>

fun compose_left_to_right ::
  "jsval \<Rightarrow> 's stage list \<Rightarrow> 's world \<Rightarrow> (exn + jsval) \<times> 's world"
where
  "compose_left_to_right v [] w = (Inr v, w)"
| "compose_left_to_right v ((f, rest) # stages) w =
     (case invoke f (v # rest) w of
        (Inl e, w') \<Rightarrow> (Inl e, w')
      | (Inr v', w') \<Rightarrow> compose_left_to_right v' stages w')"

text \<open>
  The predicate returns false for every value that a stage of the composition receives:
  for the initial value and for every intermediate result that is passed on. (A stage
  whose function throws passes nothing on.)
\<close>

fun not_nullish_throughout ::
  "jsval list \<Rightarrow> jsval \<Rightarrow> 's stage list \<Rightarrow> 's world \<Rightarrow> bool"
where
  "not_nullish_throughout M v [] w = True"
| "not_nullish_throughout M v ((f, rest) # stages) w =
     (isNullish v M = Inr False \<and>
      (case invoke f (v # rest) w of
         (Inl e, w') \<Rightarrow> True
       | (Inr v', w') \<Rightarrow> not_nullish_throughout M v' stages w'))"

text \<open>
  A marker matches a value, in the words of the specification: a marker that is not null
  and of object type matches by equality of the serialised forms, any other marker by
  strict equality. \<open>serializable v\<close> says that \<open>JSON.stringify(v)\<close> returns; two values
  have equal serialised forms only if both have one.

  \<open>comparison_throws v M\<close> says that the comparison of \<open>v\<close> with the markers of \<open>M\<close>, one
  after the other, comes to a marker that is not null and of object type for which
  \<open>JSON.stringify\<close> throws, on the marker or on \<open>v\<close>, no marker before it matching.
\<close>

definition serializable :: "jsval \<Rightarrow> bool" where
  "serializable v = (case JSON_stringify v of Inl e \<Rightarrow> False | Inr s \<Rightarrow> True)"

definition marker_matches :: "jsval \<Rightarrow> jsval \<Rightarrow> bool" where
  "marker_matches marker v =
     (case marker of
        Prim p \<Rightarrow> strict_equals p v
      | _ \<Rightarrow>
          (case JSON_stringify marker of
             Inl e \<Rightarrow> False
           | Inr a \<Rightarrow> (case JSON_stringify v of Inl e \<Rightarrow> False | Inr b \<Rightarrow> a = b)))"

fun comparison_throws :: "jsval \<Rightarrow> jsval list \<Rightarrow> bool" where
  "comparison_throws v [] = False"
| "comparison_throws v (marker # markers) =
     (if composite marker \<and> \<not> (serializable marker \<and> serializable v) then True
      else \<not> marker_matches marker v \<and> comparison_throws v markers)"

text \<open>
  Structural equality of data: the same primitive; wrappers of the same primitive; arrays
  equal element by element;
  objects with the same keys and structurally equal values under each key, in whatever
  order the keys are listed.
\<close>

fun struct_eq :: "jsval \<Rightarrow> jsval \<Rightarrow> bool"
and struct_eq_elems :: "jsval list \<Rightarrow> jsval list \<Rightarrow> bool"
and struct_eq_props :: "(string \<times> jsval) list \<Rightarrow> (string \<times> jsval) list \<Rightarrow> bool"
where
  "struct_eq (Prim p) v = (v = Prim p)"
| "struct_eq (JStringObject s) v = (v = JStringObject s)"
| "struct_eq (JNumberObject n) v = (v = JNumberObject n)"
| "struct_eq (JBooleanObject b) v = (v = JBooleanObject b)"
| "struct_eq (JArray xs) v = (case v of JArray ys \<Rightarrow> struct_eq_elems xs ys | _ \<Rightarrow> False)"
| "struct_eq (JObject a) v =
     (case v of JObject b \<Rightarrow> length a = length b \<and> struct_eq_props a b | _ \<Rightarrow> False)"
| "struct_eq_elems [] ys = (ys = [])"
| "struct_eq_elems (x # xs) ys =
     (case ys of [] \<Rightarrow> False | y # ys' \<Rightarrow> struct_eq x y \<and> struct_eq_elems xs ys')"
| "struct_eq_props [] b = True"
| "struct_eq_props ((k, v) # kvs) b =
     (case map_of b k of
        None \<Rightarrow> False
      | Some v' \<Rightarrow> struct_eq v v' \<and> struct_eq_props kvs b)"

text \<open>
  The spies of the test suite. \<open>vi.fn()\<close> with \<open>mockReturnValue(d)\<close> returns \<open>d\<close>;
  values queued by \<open>mockReturnValueOnce\<close> are returned first, one per call. The store
  is that queue. \<open>mockFnAsync\<close> is the same with \<open>mockResolvedValue\<close>: it returns a
  promise fulfilled with the value.
\<close>

abbreviation nonNullish :: jsval where
  "nonNullish \<equiv> js_str ''nonNullish''"

abbreviation mockReturn :: jsval where
  "mockReturn \<equiv> js_str ''mockReturn''"

definition mockFn :: "jsval \<Rightarrow> (jsval list) callback" where
  "mockFn d args queue =
     (case queue of [] \<Rightarrow> (Inr d, []) | v # queue' \<Rightarrow> (Inr v, queue'))"

definition mockFnAsync :: "jsval \<Rightarrow> (jsval list) callback_async" where
  "mockFnAsync d args queue =
     (case queue of
        [] \<Rightarrow> (Inr (Later (Fulfilled d)), [])
      | v # queue' \<Rightarrow> (Inr (Later (Fulfilled v)), queue'))"

section \<open>The example of the repository (\<open>example.ts\<close>)\<close>

text \<open>
  The lookup tables and the four lookups of the example: user id to user, user to
  preference, preference to item id (a BigInt), item id to item. \<open>Map.get\<close> answers
  \<open>undefined\<close> for a key that is not there; reading a property of \<open>undefined\<close> or
  \<open>null\<close> throws a \<open>TypeError\<close>, and a parameter that was not passed is \<open>undefined\<close>.
  The lookups touch no state.
\<close>

definition bikePreference :: jsval where
  "bikePreference =
     JObject [(''description'', js_str ''A bike made to go superfast''),
              (''name'', js_str ''Road bike'')]"

definition runningPreference :: jsval where
  "runningPreference =
     JObject [(''description'', js_str ''Lightweight shoes for long miles''),
              (''name'', js_str ''Running shoes'')]"

definition userMap :: "(string \<times> jsval) list" where
  "userMap =
     [(''firstUser'', JObject [(''preference'', js_str ''cycling'')]),
      (''secondUser'', JObject [(''preference'', js_str ''running'')]),
      (''thirdUser'', JObject [(''preference'', js_str ''missingPreference'')]),
      (''fourthUser'', JObject [(''preference'', js_undefined)])]"

definition preferenceItemMap :: "(string \<times> jsval) list" where
  "preferenceItemMap = [(''cycling'', js_bigint 123), (''running'', js_bigint 456)]"

definition itemInfoMap :: "(int \<times> jsval) list" where
  "itemInfoMap = [(123, bikePreference), (456, runningPreference)]"

definition first_parameter :: "jsval list \<Rightarrow> jsval" where
  "first_parameter args = (case args of [] \<Rightarrow> js_undefined | a # as \<Rightarrow> a)"

definition Map_get :: "('k \<times> jsval) list \<Rightarrow> 'k \<Rightarrow> jsval" where
  "Map_get m k = (case map_of m k of None \<Rightarrow> js_undefined | Some v \<Rightarrow> v)"

definition getUser :: "'s callback" where
  "getUser args s =
     (Inr (case first_parameter args of
             Prim (JString userId) \<Rightarrow> Map_get userMap userId
           | _ \<Rightarrow> js_undefined), s)"

definition getUserPreference :: "'s callback" where
  "getUserPreference args s =
     (case first_parameter args of
        Prim JUndefined \<Rightarrow> (Inl TypeError, s)
      | Prim JNull \<Rightarrow> (Inl TypeError, s)
      | JObject user \<Rightarrow> (Inr (Map_get user ''preference''), s)
      | _ \<Rightarrow> (Inr js_undefined, s))"

definition getPreferredItemId :: "'s callback" where
  "getPreferredItemId args s =
     (Inr (case first_parameter args of
             Prim (JString preference) \<Rightarrow> Map_get preferenceItemMap preference
           | _ \<Rightarrow> js_undefined), s)"

definition getItemDetails :: "'s callback" where
  "getItemDetails args s =
     (Inr (case first_parameter args of
             Prim (JBigInt itemId) \<Rightarrow> Map_get itemInfoMap itemId
           | _ \<Rightarrow> js_undefined), s)"

text \<open>
  The asynchronous lookups of the example are \<open>async\<close> functions that wait one turn and
  then return what the synchronous lookup returns: each gives a promise, fulfilled with
  the result or rejected with what the lookup throws.
\<close>

definition asyncOf :: "'s callback \<Rightarrow> 's callback_async" where
  "asyncOf f args s =
     (case f args s of
        (Inl e, s') \<Rightarrow> (Inr (Later (Rejected e)), s')
      | (Inr v, s') \<Rightarrow> (Inr (Later (Fulfilled v)), s'))"

definition getUserAsync :: "'s callback_async" where
  "getUserAsync = asyncOf getUser"

definition getUserPreferenceAsync :: "'s callback_async" where
  "getUserPreferenceAsync = asyncOf getUserPreference"

definition getPreferredItemIdAsync :: "'s callback_async" where
  "getPreferredItemIdAsync = asyncOf getPreferredItemId"

definition getItemDetailsAsync :: "'s callback_async" where
  "getItemDetailsAsync = asyncOf getItemDetails"

definition suggestion_stages_async :: "'s stage_async list" where
  "suggestion_stages_async =
     [(getUserAsync, []), (getUserPreferenceAsync, []), (getPreferredItemIdAsync, []),
      (getItemDetailsAsync, [])]"

definition suggestion_stages :: "'s stage list" where
  "suggestion_stages =
     [(getUser, []), (getUserPreference, []), (getPreferredItemId, []), (getItemDetails, [])]"

section \<open>Properties\<close>

subsection \<open>Helper facts: steps and chains\<close>

lemma composite_guard:
  "composite nullish = (nullish \<noteq> Prim JNull \<and> typeof nullish = ''object'')"
  by (cases nullish rule: typeof.cases) (simp_all add: composite_def)

lemma invoke_eq:
  "invoke f args w =
     (fst (f args (store w)), \<lparr>calls = calls w @ [args], store = snd (f args (store w))\<rparr>)"
  by (simp add: invoke_def split: prod.splits)

lemma pipe_step_shape:
  "pipe (Pipe v M) f rest w = (Inr st, w') \<Longrightarrow> step_pipe st = Pipe (step_value st) M"
  by (auto split: prod.splits sum.splits)

lemma monad_shape: "step_pipe (monad x M) = Pipe (step_value (monad x M)) M"
  by (simp add: monad_def)

lemma chain_step_shape:
  "chain st stages w = (Inr st', w') \<Longrightarrow> step_pipe st = Pipe (step_value st) M
     \<Longrightarrow> step_pipe st' = Pipe (step_value st') M"
proof (induction stages arbitrary: st w)
  case Nil
  then show ?case by simp
next
  case (Cons stage stages)
  obtain f rest where stage: "stage = (f, rest)" by (cases stage)
  from Cons.prems obtain st1 w1 where
    p: "pipe (Pipe (step_value st) M) f rest w = (Inr st1, w1)" and
    c: "chain st1 stages w1 = (Inr st', w')"
    by (auto simp: stage split: prod.splits sum.splits)
  from pipe_step_shape [OF p] Cons.IH [OF c] show ?case by simp
qed

lemma step_eq: "step_pipe st = Pipe (step_value st) M \<Longrightarrow>
  st = \<lparr>step_value = step_value st, step_pipe = Pipe (step_value st) M\<rparr>"
  by (cases st) simp

lemma chain_append:
  "chain st (xs @ ys) w =
     (case chain st xs w of (Inl e, w') \<Rightarrow> (Inl e, w') | (Inr st', w') \<Rightarrow> chain st' ys w')"
  by (induction xs arbitrary: st w) (auto split: prod.splits sum.splits)

lemma bind_nullish:
  "isNullish v M = Inr True \<Longrightarrow> bind f M v rest w = (Inr v, w)"
  by (simp add: bind_def)

lemma chain_nullish:
  "isNullish v M = Inr True \<Longrightarrow>
   chain \<lparr>step_value = v, step_pipe = Pipe v M\<rparr> stages w =
     (Inr \<lparr>step_value = v, step_pipe = Pipe v M\<rparr>, w)"
  by (induction stages) (auto simp: bind_nullish)

lemma chain_from_Nil: "chain_from r M [] w = (r, w)"
  by (cases r) (simp_all add: monad_def)

lemma chain_from_Cons:
  "chain_from (Inr v) M ((f, rest) # stages) w =
     (case bind f M v rest w of (r, w') \<Rightarrow> chain_from r M stages w')"
  by (auto simp: monad_def split: prod.splits sum.splits)

lemma chain_from_nullish:
  "isNullish v M = Inr True \<Longrightarrow> chain_from (Inr v) M stages w = (Inr v, w)"
  by (simp add: monad_def chain_nullish)

lemma chain_from_compose:
  "not_nullish_throughout M x stages w \<Longrightarrow>
   chain_from (Inr x) M stages w = compose_left_to_right x stages w"
proof (induction stages arbitrary: x w)
  case Nil
  then show ?case by (simp add: chain_from_Nil)
next
  case (Cons stage stages)
  obtain f rest where stage: "stage = (f, rest)" by (cases stage)
  obtain r w1 where i: "invoke f (x # rest) w = (r, w1)" by (cases "invoke f (x # rest) w")
  from Cons.prems have nn: "isNullish x M = Inr False" by (simp add: stage)
  then have b: "bind f M x rest w = (r, w1)" by (simp add: bind_def i)
  show ?case
  proof (cases r)
    case (Inl e)
    with b i show ?thesis by (simp add: stage chain_from_Cons del: chain_from.simps(2))
  next
    case (Inr v)
    with Cons.prems i have "not_nullish_throughout M v stages w1" by (simp add: stage)
    from Cons.IH [OF this] b i Inr show ?thesis
      by (simp add: stage chain_from_Cons del: chain_from.simps(2))
  qed
qed

lemma not_nullish_throughout_empty: "not_nullish_throughout [] x stages w"
  by (induction stages arbitrary: x w) (auto simp: isNullish_def split: prod.splits sum.splits)

lemma chain_from_append:
  "chain_from r M (xs @ ys) w =
     (case chain_from r M xs w of (r', w') \<Rightarrow> chain_from r' M ys w')"
proof (cases r)
  case (Inl e)
  then show ?thesis by simp
next
  case (Inr v)
  obtain r1 w1 where c: "chain (monad v M) xs w = (r1, w1)" by (cases "chain (monad v M) xs w")
  show ?thesis
  proof (cases r1)
    case (Inl e)
    with Inr c show ?thesis by (simp add: chain_append)
  next
    case r1: (Inr st)
    with c have "step_pipe st = Pipe (step_value st) M"
      using chain_step_shape [OF _ monad_shape] by blast
    then have "st = monad (step_value st) M" unfolding monad_def by (rule step_eq)
    with Inr c r1 show ?thesis by (simp add: chain_append)
  qed
qed

lemma chain_from_throw:
  "isNullish v M = Inl e \<Longrightarrow> chain_from (Inr v) M (stage # post) w = (Inl e, w)"
  by (cases stage) (simp add: chain_from_Cons bind_def del: chain_from.simps(2))

lemma chain_from_compose_throw:
  assumes "not_nullish_throughout M x pre w" "compose_left_to_right x pre w = (Inr v, w1)"
    "isNullish v M = Inl e"
  shows "chain_from (Inr x) M (pre @ stage # post) w = (Inl e, w1)"
  using chain_from_compose [OF assms(1)] assms(2) chain_from_throw [OF assms(3)]
  by (simp add: chain_from_append del: chain_from.simps(2))

subsection \<open>Helper facts: promises\<close>

lemma async_return_settle: "async_return r = promise_of (settle_result r)"
  by (cases r rule: settle_result.cases) (auto elim: await.elims, (case_tac p; simp)+)

lemma promise_of_await: "promise_of (await p) = p"
  by (cases p) simp_all

lemma await_promise_of: "await (promise_of r) = r"
  by (cases r) simp_all

lemma Promise_resolve_settle: "Promise_resolve a = promise_of (settle_result (Inr a))"
  by (cases a) (simp_all add: promise_of_await)

lemma invoke_settled:
  "invoke (settled g) args w = (case invoke g args w of (r, w') \<Rightarrow> (settle_result r, w'))"
  by (simp add: invoke_def settled_def split: prod.splits)

lemma bindAsync_bind:
  "bindAsync g M a rest w =
     (case settle_result (Inr a) of
        Inl e \<Rightarrow> (Rejected e, w)
      | Inr v \<Rightarrow> (case bind (settled g) M v rest w of (r, w') \<Rightarrow> (promise_of r, w')))"
  by (cases a)
     (auto simp: bindAsync_def bind_def invoke_settled async_return_settle
           split: sum.splits bool.splits prod.splits)

lemma chainAsync_chain:
  "async_pipe ast = PipeAsync a M \<Longrightarrow> async_value ast = Promise_resolve a \<Longrightarrow>
   async_value (fst (chainAsync ast gs w)) =
     promise_of (fst (chain_from (settle_result (Inr a)) M (map sync_stage gs) w)) \<and>
   snd (chainAsync ast gs w) =
     snd (chain_from (settle_result (Inr a)) M (map sync_stage gs) w)"
proof (induction gs arbitrary: ast a w)
  case Nil
  then show ?case by (simp add: chain_from_Nil Promise_resolve_settle)
next
  case (Cons sg gs)
  obtain g rest where sg: "sg = (g, rest)" by (cases sg)
  obtain p w1 where b: "bindAsync g M a rest w = (p, w1)" by (cases "bindAsync g M a rest w")
  define ast1 where "ast1 = \<lparr>async_value = p, async_pipe = PipeAsync (Later p) M\<rparr>"
  have step: "chainAsync ast (sg # gs) w = chainAsync ast1 gs w1"
    using Cons.prems(1) b by (simp add: sg ast1_def)
  have ih: "async_value (fst (chainAsync ast1 gs w1)) =
      promise_of (fst (chain_from (await p) M (map sync_stage gs) w1)) \<and>
    snd (chainAsync ast1 gs w1) = snd (chain_from (await p) M (map sync_stage gs) w1)"
    using Cons.IH [of ast1 "Later p" w1] by (simp add: ast1_def)
  have sync: "chain_from (settle_result (Inr a)) M (map sync_stage (sg # gs)) w =
      chain_from (await p) M (map sync_stage gs) w1"
  proof (cases "settle_result (Inr a)")
    case (Inl e)
    with b have "p = Rejected e" "w1 = w" by (simp_all add: bindAsync_bind)
    with Inl show ?thesis by simp
  next
    case (Inr v)
    obtain r w2 where r: "bind (settled g) M v rest w = (r, w2)"
      by (cases "bind (settled g) M v rest w")
    with b Inr have "p = promise_of r" "w1 = w2" by (simp_all add: bindAsync_bind)
    with Inr r show ?thesis
      by (simp add: sg sync_stage_def chain_from_Cons await_promise_of del: chain_from.simps(2))
  qed
  show ?case unfolding step sync using ih .
qed

lemma chainAsync_monadAsync:
  "(case chainAsync (monadAsync a M) gs w of (ast, w') \<Rightarrow> (await (async_value ast), w')) =
     chain_from (settle_result (Inr a)) M (map sync_stage gs) w"
proof -
  obtain ast w' where c: "chainAsync (monadAsync a M) gs w = (ast, w')"
    by (cases "chainAsync (monadAsync a M) gs w")
  obtain r w'' where f: "chain_from (settle_result (Inr a)) M (map sync_stage gs) w = (r, w'')"
    by (cases "chain_from (settle_result (Inr a)) M (map sync_stage gs) w")
  have p: "async_pipe (monadAsync a M) = PipeAsync a M"
    and v: "async_value (monadAsync a M) = Promise_resolve a"
    by (simp_all add: monadAsync_def)
  from chainAsync_chain [OF p v, of gs w]
  have "async_value ast = promise_of r" "w' = w''"
    by (simp_all add: c f)
  then show ?thesis by (simp add: c f await_promise_of)
qed

lemma chainAsync_append:
  "chainAsync st (xs @ ys) w = (case chainAsync st xs w of (st', w') \<Rightarrow> chainAsync st' ys w')"
  by (induction xs arbitrary: st w) (auto split: prod.splits)

lemma pipeAsync_shape:
  "pipeAsync c g rest w = (st', w') \<Longrightarrow> async_pipe st = c \<Longrightarrow> c = PipeAsync a M \<Longrightarrow>
   \<exists>a'. async_pipe st' = PipeAsync a' M \<and> async_value st' = Promise_resolve a'"
  by (auto split: prod.splits)

lemma chainAsync_shape:
  "chainAsync st gs w = (st', w') \<Longrightarrow>
   async_pipe st = PipeAsync a M \<Longrightarrow> async_value st = Promise_resolve a \<Longrightarrow>
   \<exists>a'. async_pipe st' = PipeAsync a' M \<and> async_value st' = Promise_resolve a'"
proof (induction gs arbitrary: st a w)
  case Nil
  then show ?case by auto
next
  case (Cons sg gs)
  obtain g rest where sg: "sg = (g, rest)" by (cases sg)
  obtain st1 w1 where p: "pipeAsync (PipeAsync a M) g rest w = (st1, w1)"
    by (cases "pipeAsync (PipeAsync a M) g rest w")
  with Cons.prems have c: "chainAsync st1 gs w1 = (st', w')" by (simp add: sg)
  from pipeAsync_shape [OF p Cons.prems(2) refl] obtain a1 where
    "async_pipe st1 = PipeAsync a1 M" "async_value st1 = Promise_resolve a1" by blast
  from Cons.IH [OF c this] show ?case .
qed

lemma same_behaviour_sync_stage: "same_behaviour sf sg \<Longrightarrow> sf = sync_stage sg"
  by (cases sf) (auto simp: same_behaviour_def sync_stage_def)

lemma same_behaviour_map: "list_all2 same_behaviour fs gs \<Longrightarrow> fs = map sync_stage gs"
  by (induction rule: list_all2_induct) (simp_all add: same_behaviour_sync_stage)

lemma settled_asyncOf: "settled (asyncOf f) = f"
  by (auto simp: settled_def asyncOf_def fun_eq_iff split: prod.splits sum.splits)

subsection \<open>Helper facts: the predicate\<close>

lemma serialize_TypeError:
  "serializeJSONProperty v = Inl e \<Longrightarrow> e = TypeError"
  "serializeJSONArray xs = Inl e \<Longrightarrow> e = TypeError"
  "serializeJSONObject kvs = Inl e \<Longrightarrow> e = TypeError"
proof (induction v and xs and kvs arbitrary: e and e and e
    rule: serializeJSONProperty_serializeJSONArray_serializeJSONObject.induct)
  case (1 p)
  then show ?case by (cases p rule: serializePrim.cases) simp_all
next
  case (2 s)
  then show ?case by simp
next
  case (3 n)
  then show ?case by (cases n) simp_all
next
  case (4 b)
  then show ?case by simp
qed (auto split: sum.splits)

lemma JSON_stringify_TypeError: "JSON_stringify v = Inl e \<Longrightarrow> e = TypeError"
  by (simp add: JSON_stringify_def serialize_TypeError(1))

lemma nullish_callback_cases:
  "nullish_callback v m =
     (if composite m \<and> \<not> (serializable m \<and> serializable v) then Inl TypeError
      else Inr (marker_matches m v))"
  by (cases m)
     (auto simp: nullish_callback_def marker_matches_def composite_def serializable_def
           split: sum.splits dest: JSON_stringify_TypeError)

lemma isNullish_cases:
  "isNullish v M =
     (if comparison_throws v M then Inl TypeError else Inr (\<exists>m\<in>set M. marker_matches m v))"
proof (induction M)
  case Nil
  show ?case by (simp add: isNullish_def)
next
  case (Cons m M)
  then have ih: "some (nullish_callback v) M =
      (if comparison_throws v M then Inl TypeError else Inr (\<exists>m\<in>set M. marker_matches m v))"
    by (simp add: isNullish_def)
  show ?case
    by (cases "marker_matches m v") (auto simp: isNullish_def nullish_callback_cases ih)
qed

lemma prim_equals_typeof:
  "prim_equals p q \<Longrightarrow> typeof (Prim p) = typeof (Prim q)"
  by (cases p; cases q) simp_all

lemma strict_equals_typeof: "strict_equals p v \<Longrightarrow> typeof (Prim p) = typeof v"
  by (cases v) (auto dest: prim_equals_typeof)

subsection \<open>The model against the test suite and the example\<close>

text \<open>
  The table of the test "isNullish should return true if argument matches one of the
  nullishTypes", row by row.
\<close>

lemma isNullish_test_table:
  "isNullish js_null [js_undefined] = Inr False"
  "isNullish js_null [js_null, js_undefined] = Inr True"
  "isNullish js_undefined [js_null, js_undefined] = Inr True"
  "isNullish (js_str ''something'') [js_null, js_undefined] = Inr False"
  "isNullish (JObject [(''type'', js_str ''null'')]) [JObject [(''type'', js_str ''null'')]] = Inr True"
  "isNullish (JObject [(''type'', js_str ''null''), (''other'', js_str ''other'')])
     [JObject [(''type'', js_str ''null'')]] = Inr False"
  "isNullish (JArray []) [JArray []] = Inr True"
  "isNullish (JArray [js_null]) [JArray []] = Inr False"
  "isNullish (JArray [js_num 1, js_num 2, js_num 3]) [JArray [js_num 1, js_num 2, js_num 3]] = Inr True"
  "isNullish (JArray [js_num 1, js_num 2]) [JArray [js_num 1, js_num 2, js_num 3]] = Inr False"
  "isNullish (js_str ''string'') [js_null] = Inr False"
  "isNullish (js_num 5) [js_null] = Inr False"
  "isNullish (js_num (- 1)) [js_num (- 1)] = Inr True"
  by (simp_all add: isNullish_def nullish_callback_def JSON_stringify_def quoteJSONString_def
      quoteJSONChar_def digits.simps digit_char_def)

text \<open>
  The test "Should return expected result with example db and callbacks": the suggestion
  for each of the five user ids, with \<open>undefined\<close> as the only marker, and how many of
  the four lookups ran.
\<close>

lemma suggestion_firstUser:
  "chain_from (Inr (js_str ''firstUser'')) [js_undefined] suggestion_stages \<lparr>calls = [], store = ()\<rparr> =
     (Inr bikePreference,
      \<lparr>calls = [[js_str ''firstUser''], [JObject [(''preference'', js_str ''cycling'')]],
                [js_str ''cycling''], [js_bigint 123]], store = ()\<rparr>)"
  by (simp add: suggestion_stages_def monad_def bind_def invoke_def isNullish_def
      nullish_callback_def getUser_def getUserPreference_def getPreferredItemId_def
      getItemDetails_def first_parameter_def Map_get_def userMap_def preferenceItemMap_def
      itemInfoMap_def)

lemma suggestion_secondUser:
  "fst (chain_from (Inr (js_str ''secondUser'')) [js_undefined] suggestion_stages
     \<lparr>calls = [], store = ()\<rparr>) = Inr runningPreference"
  by (simp add: suggestion_stages_def monad_def bind_def invoke_def isNullish_def
      nullish_callback_def getUser_def getUserPreference_def getPreferredItemId_def
      getItemDetails_def first_parameter_def Map_get_def userMap_def preferenceItemMap_def
      itemInfoMap_def)

lemma suggestion_thirdUser:
  "chain_from (Inr (js_str ''thirdUser'')) [js_undefined] suggestion_stages \<lparr>calls = [], store = ()\<rparr> =
     (Inr js_undefined,
      \<lparr>calls = [[js_str ''thirdUser''], [JObject [(''preference'', js_str ''missingPreference'')]],
                [js_str ''missingPreference'']], store = ()\<rparr>)"
  by (simp add: suggestion_stages_def monad_def bind_def invoke_def isNullish_def
      nullish_callback_def getUser_def getUserPreference_def getPreferredItemId_def
      getItemDetails_def first_parameter_def Map_get_def userMap_def preferenceItemMap_def
      itemInfoMap_def)

lemma suggestion_fourthUser:
  "chain_from (Inr (js_str ''fourthUser'')) [js_undefined] suggestion_stages \<lparr>calls = [], store = ()\<rparr> =
     (Inr js_undefined,
      \<lparr>calls = [[js_str ''fourthUser''], [JObject [(''preference'', js_undefined)]]],
       store = ()\<rparr>)"
  by (simp add: suggestion_stages_def monad_def bind_def invoke_def isNullish_def
      nullish_callback_def getUser_def getUserPreference_def getPreferredItemId_def
      getItemDetails_def first_parameter_def Map_get_def userMap_def preferenceItemMap_def
      itemInfoMap_def)

lemma suggestion_missingUser:
  "chain_from (Inr (js_str ''missingUser'')) [js_undefined] suggestion_stages \<lparr>calls = [], store = ()\<rparr> =
     (Inr js_undefined, \<lparr>calls = [[js_str ''missingUser'']], store = ()\<rparr>)"
  by (simp add: suggestion_stages_def monad_def bind_def invoke_def isNullish_def
      nullish_callback_def getUser_def getUserPreference_def getPreferredItemId_def
      getItemDetails_def first_parameter_def Map_get_def userMap_def preferenceItemMap_def
      itemInfoMap_def)

text \<open>
  The item ids of the example are BigInts. With an object among the markers, the same
  chain throws where the item id is checked, before the last lookup is called.
\<close>

lemma suggestion_with_object_marker:
  "chain_from (Inr (js_str ''firstUser'')) [js_undefined, JObject []] suggestion_stages
       \<lparr>calls = [], store = ()\<rparr> =
     (Inl TypeError,
      \<lparr>calls = [[js_str ''firstUser''], [JObject [(''preference'', js_str ''cycling'')]],
                [js_str ''cycling'']], store = ()\<rparr>)"
  by (simp add: suggestion_stages_def monad_def bind_def invoke_def isNullish_def
      nullish_callback_def getUser_def getUserPreference_def getPreferredItemId_def
      getItemDetails_def first_parameter_def Map_get_def userMap_def preferenceItemMap_def
      itemInfoMap_def JSON_stringify_def quoteJSONString_def quoteJSONChar_def)

subsection \<open>Nullish values travel unchanged\<close>

text \<open>
  Claim C1. Take a chain built by \<open>monad\<close> (or \<open>monadAsync\<close>) from an initial value and
  a marker list, and any number of continuation calls \<open>pre\<close>. If the step reached holds
  a value that the predicate judges nullish, then after any further continuation calls
  \<open>post\<close> the step is the same step, and the world is the same world: its call log has
  no new entry, so none of the functions of \<open>post\<close> was called. Every later stage is
  covered, \<open>post\<close> being any list. In the asynchronous chain the value of a step is a
  promise; there the value held is what the promise is fulfilled with, and every later
  step's promise is fulfilled with that same value.
\<close>

theorem nullish_propagates:
  "(chain (monad x M) pre w0 = (Inr st, w) \<and> isNullish (step_value st) M = Inr True \<longrightarrow>
      chain (monad x M) (pre @ post) w0 = (Inr st, w)) \<and>
   (chainAsync (monadAsync a M) apre wa0 = (ast, wa) \<and> async_value ast = Fulfilled v \<and>
    isNullish v M = Inr True \<longrightarrow>
      (case chainAsync (monadAsync a M) (apre @ apost) wa0 of
         (ast', wa') \<Rightarrow> (async_value ast', wa')) = (Fulfilled v, wa))"
proof (intro conjI impI)
  assume h: "chain (monad x M) pre w0 = (Inr st, w) \<and> isNullish (step_value st) M = Inr True"
  then have "step_pipe st = Pipe (step_value st) M"
    using chain_step_shape [OF _ monad_shape] by blast
  from step_eq [OF this] chain_nullish [of "step_value st" M post w] h
  have "chain st post w = (Inr st, w)" by simp
  with h show "chain (monad x M) (pre @ post) w0 = (Inr st, w)"
    by (simp add: chain_append)
next
  assume h: "chainAsync (monadAsync a M) apre wa0 = (ast, wa) \<and> async_value ast = Fulfilled v \<and>
    isNullish v M = Inr True"
  have "async_pipe (monadAsync a M) = PipeAsync a M"
    "async_value (monadAsync a M) = Promise_resolve a"
    by (simp_all add: monadAsync_def)
  from chainAsync_shape [OF _ this] h obtain a' where
    a': "async_pipe ast = PipeAsync a' M" "async_value ast = Promise_resolve a'" by blast
  with h have s: "settle_result (Inr a') = Inr v"
    by (cases a') (auto simp: promise_of_await)
  obtain ast' wa' where c: "chainAsync ast apost wa = (ast', wa')"
    by (cases "chainAsync ast apost wa")
  from chainAsync_chain [OF a', of apost wa] h
  have "async_value ast' = Fulfilled v" "wa' = wa"
    by (simp_all add: s c chain_from_nullish del: chain_from.simps(2))
  with h c show "(case chainAsync (monadAsync a M) (apre @ apost) wa0 of
         (ast', wa') \<Rightarrow> (async_value ast', wa')) = (Fulfilled v, wa)"
    by (simp add: chainAsync_append)
qed

text \<open>
  The test of the suite: the spy answers \<open>null\<close> once. After the first continuation the
  value is \<open>null\<close>; two more continuations leave the step and the one logged call as
  they are, in both chains.
\<close>

theorem nullish_propagates_witness:
  "chain (monad nonNullish [js_null]) [(mockFn mockReturn, [])] \<lparr>calls = [], store = [js_null]\<rparr> =
     (Inr (monad js_null [js_null]), \<lparr>calls = [[nonNullish]], store = []\<rparr>) \<and>
   isNullish (step_value (monad js_null [js_null])) [js_null] = Inr True \<and>
   chain (monad nonNullish [js_null])
     ([(mockFn mockReturn, [])] @ [(mockFn mockReturn, []), (mockFn mockReturn, [])])
     \<lparr>calls = [], store = [js_null]\<rparr> =
     (Inr (monad js_null [js_null]), \<lparr>calls = [[nonNullish]], store = []\<rparr>) \<and>
   chainAsync (monadAsync (Now nonNullish) [js_null]) [(mockFnAsync mockReturn, [])]
     \<lparr>calls = [], store = [js_null]\<rparr> =
     (\<lparr>async_value = Fulfilled js_null, async_pipe = PipeAsync (Later (Fulfilled js_null)) [js_null]\<rparr>,
      \<lparr>calls = [[nonNullish]], store = []\<rparr>) \<and>
   (case chainAsync (monadAsync (Now nonNullish) [js_null])
      ([(mockFnAsync mockReturn, [])] @ [(mockFnAsync mockReturn, []), (mockFnAsync mockReturn, [])])
      \<lparr>calls = [], store = [js_null]\<rparr> of
      (ast', wa') \<Rightarrow> (async_value ast', wa')) =
     (Fulfilled js_null, \<lparr>calls = [[nonNullish]], store = []\<rparr>)"
proof -
  have h1: "chain (monad nonNullish [js_null]) [(mockFn mockReturn, [])]
       \<lparr>calls = [], store = [js_null]\<rparr> =
     (Inr (monad js_null [js_null]), \<lparr>calls = [[nonNullish]], store = []\<rparr>)"
    by (simp add: monad_def bind_def invoke_def mockFn_def isNullish_def nullish_callback_def)
  have h2: "isNullish (step_value (monad js_null [js_null])) [js_null] = Inr True"
    by (simp add: monad_def isNullish_def nullish_callback_def)
  have h3: "chainAsync (monadAsync (Now nonNullish) [js_null]) [(mockFnAsync mockReturn, [])]
     \<lparr>calls = [], store = [js_null]\<rparr> =
     (\<lparr>async_value = Fulfilled js_null, async_pipe = PipeAsync (Later (Fulfilled js_null)) [js_null]\<rparr>,
      \<lparr>calls = [[nonNullish]], store = []\<rparr>)"
    by (simp add: monadAsync_def bindAsync_def invoke_def mockFnAsync_def isNullish_def
        nullish_callback_def)
  have h4: "isNullish js_null [js_null] = Inr True"
    by (simp add: isNullish_def nullish_callback_def)
  note t = nullish_propagates [where x = nonNullish and M = "[js_null]"
      and pre = "[(mockFn mockReturn, [])]" and ?w0.0 = "\<lparr>calls = [], store = [js_null]\<rparr>"
      and st = "monad js_null [js_null]" and w = "\<lparr>calls = [[nonNullish]], store = []\<rparr>"
      and post = "[(mockFn mockReturn, []), (mockFn mockReturn, [])]"
      and a = "Now nonNullish" and apre = "[(mockFnAsync mockReturn, [])]"
      and ?wa0.0 = "\<lparr>calls = [], store = [js_null]\<rparr>"
      and ast = "\<lparr>async_value = Fulfilled js_null,
                  async_pipe = PipeAsync (Later (Fulfilled js_null)) [js_null]\<rparr>"
      and wa = "\<lparr>calls = [[nonNullish]], store = []\<rparr>" and v = js_null
      and apost = "[(mockFnAsync mockReturn, []), (mockFnAsync mockReturn, [])]"]
  from t h1 h2 h3 h4 show ?thesis by simp
qed

subsection \<open>Chains without a nullish value are compositions\<close>

text \<open>
  Claim C2, as the code has it. That no intermediate value is nullish does not make a
  chain the composition of its functions, because the predicate can throw. Take the
  chain of the example with the markers \<open>undefined\<close> and \<open>{}\<close>: none of the four values
  that enter a stage is judged nullish, and the composition of the four lookups gives
  the bike; but the chain throws a \<open>TypeError\<close> where the item id \<open>123n\<close> is checked,
  after three lookups.
\<close>

theorem chain_is_composition_counterexample:
  "isNullish (js_str ''firstUser'') [js_undefined, JObject []] \<noteq> Inr True \<and>
   isNullish (JObject [(''preference'', js_str ''cycling'')]) [js_undefined, JObject []] \<noteq> Inr True \<and>
   isNullish (js_str ''cycling'') [js_undefined, JObject []] \<noteq> Inr True \<and>
   isNullish (js_bigint 123) [js_undefined, JObject []] \<noteq> Inr True \<and>
   compose_left_to_right (js_str ''firstUser'') suggestion_stages \<lparr>calls = [], store = ()\<rparr> =
     (Inr bikePreference,
      \<lparr>calls = [[js_str ''firstUser''], [JObject [(''preference'', js_str ''cycling'')]],
                [js_str ''cycling''], [js_bigint 123]], store = ()\<rparr>) \<and>
   (case chain (monad (js_str ''firstUser'') [js_undefined, JObject []]) suggestion_stages
           \<lparr>calls = [], store = ()\<rparr> of (r, w') \<Rightarrow> (chain_value r, w')) =
     (Inl TypeError,
      \<lparr>calls = [[js_str ''firstUser''], [JObject [(''preference'', js_str ''cycling'')]],
                [js_str ''cycling'']], store = ()\<rparr>)"
  by (simp add: suggestion_stages_def monad_def bind_def invoke_def isNullish_def
      nullish_callback_def getUser_def getUserPreference_def getPreferredItemId_def
      getItemDetails_def first_parameter_def Map_get_def userMap_def preferenceItemMap_def
      itemInfoMap_def JSON_stringify_def quoteJSONString_def quoteJSONChar_def)

text \<open>
  Claim C2, amended. If the predicate returns false for every value that enters a stage,
  the value of the final step, and the world left behind, are those of the left-to-right
  composition of the user functions, each called on the previous result followed by the
  extra arguments of its stage. For the asynchronous chain the final value is what the
  final promise settles to, and the functions composed are the ones the asynchronous
  functions behave like. A function that throws ends the composition and the chain
  alike. If the predicate returns false up to some stage and throws on the value that
  enters that stage, the chain throws that exception there (the final promise of the
  asynchronous chain is rejected with it), and the world is the one the earlier stages
  left: no further function is called.
\<close>

theorem chain_is_composition:
  "(not_nullish_throughout M x stages w \<longrightarrow>
      (case chain (monad x M) stages w of (r, w') \<Rightarrow> (chain_value r, w')) =
        compose_left_to_right x stages w) \<and>
   (not_nullish_throughout M x (map sync_stage gs) w \<longrightarrow>
      (case chainAsync (monadAsync (Now x) M) gs w of (ast, w') \<Rightarrow> (await (async_value ast), w')) =
        compose_left_to_right x (map sync_stage gs) w) \<and>
   (not_nullish_throughout M x pre w \<and> compose_left_to_right x pre w = (Inr v, w1) \<and>
    isNullish v M = Inl e \<longrightarrow>
      (case chain (monad x M) (pre @ stage # post) w of (r, w') \<Rightarrow> (chain_value r, w')) =
        (Inl e, w1)) \<and>
   (not_nullish_throughout M x (map sync_stage apre) w \<and>
    compose_left_to_right x (map sync_stage apre) w = (Inr v, w1) \<and> isNullish v M = Inl e \<longrightarrow>
      (case chainAsync (monadAsync (Now x) M) (apre @ astage # apost) w of
         (ast, w') \<Rightarrow> (await (async_value ast), w')) = (Inl e, w1))"
proof (intro conjI impI)
  assume "not_nullish_throughout M x stages w"
  from chain_from_compose [OF this]
  show "(case chain (monad x M) stages w of (r, w') \<Rightarrow> (chain_value r, w')) =
        compose_left_to_right x stages w" by simp
next
  assume "not_nullish_throughout M x (map sync_stage gs) w"
  from chain_from_compose [OF this]
  show "(case chainAsync (monadAsync (Now x) M) gs w of
          (ast, w') \<Rightarrow> (await (async_value ast), w')) =
        compose_left_to_right x (map sync_stage gs) w"
    by (simp add: chainAsync_monadAsync del: chain_from.simps(2))
next
  assume "not_nullish_throughout M x pre w \<and> compose_left_to_right x pre w = (Inr v, w1) \<and>
    isNullish v M = Inl e"
  then have "chain_from (Inr x) M (pre @ stage # post) w = (Inl e, w1)"
    using chain_from_compose_throw [of M x pre w v w1 e stage post] by blast
  then show "(case chain (monad x M) (pre @ stage # post) w of
      (r, w') \<Rightarrow> (chain_value r, w')) = (Inl e, w1)" by simp
next
  assume "not_nullish_throughout M x (map sync_stage apre) w \<and>
    compose_left_to_right x (map sync_stage apre) w = (Inr v, w1) \<and> isNullish v M = Inl e"
  then have "chain_from (Inr x) M (map sync_stage apre @ sync_stage astage # map sync_stage apost) w =
      (Inl e, w1)"
    using chain_from_compose_throw [of M x "map sync_stage apre" w v w1 e "sync_stage astage"
        "map sync_stage apost"] by blast
  then show "(case chainAsync (monadAsync (Now x) M) (apre @ astage # apost) w of
         (ast, w') \<Rightarrow> (await (async_value ast), w')) = (Inl e, w1)"
    by (simp add: chainAsync_monadAsync del: chain_from.simps(2))
qed

text \<open>
  Two stages of spies, the first with two extra arguments: the spy answers \<open>first\<close>,
  then its default; neither input is \<open>null\<close>, and the log shows each call with its
  arguments. And the chain of the example with the markers \<open>undefined\<close> and \<open>{}\<close>:
  three lookups are composed, and the check of \<open>123n\<close> throws.
\<close>

theorem chain_is_composition_witness:
  "not_nullish_throughout [js_null] nonNullish
     [(mockFn mockReturn, [js_num 0, js_undefined]), (mockFn mockReturn, [])]
     \<lparr>calls = [], store = [js_str ''first'']\<rparr> \<and>
   (case chain (monad nonNullish [js_null])
      [(mockFn mockReturn, [js_num 0, js_undefined]), (mockFn mockReturn, [])]
      \<lparr>calls = [], store = [js_str ''first'']\<rparr> of (r, w') \<Rightarrow> (chain_value r, w')) =
     (Inr mockReturn,
      \<lparr>calls = [[nonNullish, js_num 0, js_undefined], [js_str ''first'']], store = []\<rparr>) \<and>
   not_nullish_throughout [js_null] nonNullish
     (map sync_stage [(mockFnAsync mockReturn, [js_num 0, js_undefined]), (mockFnAsync mockReturn, [])])
     \<lparr>calls = [], store = [js_str ''first'']\<rparr> \<and>
   (case chainAsync (monadAsync (Now nonNullish) [js_null])
      [(mockFnAsync mockReturn, [js_num 0, js_undefined]), (mockFnAsync mockReturn, [])]
      \<lparr>calls = [], store = [js_str ''first'']\<rparr> of
      (ast, w') \<Rightarrow> (await (async_value ast), w')) =
     (Inr mockReturn,
      \<lparr>calls = [[nonNullish, js_num 0, js_undefined], [js_str ''first'']], store = []\<rparr>) \<and>
   not_nullish_throughout [js_undefined, JObject []] (js_str ''firstUser'')
     [(getUser, []), (getUserPreference, []), (getPreferredItemId, [])] \<lparr>calls = [], store = ()\<rparr> \<and>
   compose_left_to_right (js_str ''firstUser'')
     [(getUser, []), (getUserPreference, []), (getPreferredItemId, [])] \<lparr>calls = [], store = ()\<rparr> =
     (Inr (js_bigint 123),
      \<lparr>calls = [[js_str ''firstUser''], [JObject [(''preference'', js_str ''cycling'')]],
                [js_str ''cycling'']], store = ()\<rparr>) \<and>
   isNullish (js_bigint 123) [js_undefined, JObject []] = Inl TypeError \<and>
   (case chain (monad (js_str ''firstUser'') [js_undefined, JObject []])
      ([(getUser, []), (getUserPreference, []), (getPreferredItemId, [])] @ (getItemDetails, []) # [])
      \<lparr>calls = [], store = ()\<rparr> of (r, w') \<Rightarrow> (chain_value r, w')) =
     (Inl TypeError,
      \<lparr>calls = [[js_str ''firstUser''], [JObject [(''preference'', js_str ''cycling'')]],
                [js_str ''cycling'']], store = ()\<rparr>) \<and>
   (case chainAsync (monadAsync (Now (js_str ''firstUser'')) [js_undefined, JObject []])
      ([(getUserAsync, []), (getUserPreferenceAsync, []), (getPreferredItemIdAsync, [])] @ (getItemDetailsAsync, []) # [])
      \<lparr>calls = [], store = ()\<rparr> of (ast, w') \<Rightarrow> (await (async_value ast), w')) =
     (Inl TypeError,
      \<lparr>calls = [[js_str ''firstUser''], [JObject [(''preference'', js_str ''cycling'')]],
                [js_str ''cycling'']], store = ()\<rparr>)"
proof -
  have n1: "not_nullish_throughout [js_null] nonNullish
     [(mockFn mockReturn, [js_num 0, js_undefined]), (mockFn mockReturn, [])]
     \<lparr>calls = [], store = [js_str ''first'']\<rparr>"
    by (simp add: isNullish_def nullish_callback_def invoke_def mockFn_def)
  have c1: "compose_left_to_right nonNullish
     [(mockFn mockReturn, [js_num 0, js_undefined]), (mockFn mockReturn, [])]
     \<lparr>calls = [], store = [js_str ''first'']\<rparr> =
     (Inr mockReturn,
      \<lparr>calls = [[nonNullish, js_num 0, js_undefined], [js_str ''first'']], store = []\<rparr>)"
    by (simp add: invoke_def mockFn_def)
  have n2: "not_nullish_throughout [js_null] nonNullish
     (map sync_stage [(mockFnAsync mockReturn, [js_num 0, js_undefined]), (mockFnAsync mockReturn, [])])
     \<lparr>calls = [], store = [js_str ''first'']\<rparr>"
    by (simp add: isNullish_def nullish_callback_def invoke_def mockFnAsync_def sync_stage_def
        settled_def)
  have c2: "compose_left_to_right nonNullish
     (map sync_stage [(mockFnAsync mockReturn, [js_num 0, js_undefined]), (mockFnAsync mockReturn, [])])
     \<lparr>calls = [], store = [js_str ''first'']\<rparr> =
     (Inr mockReturn,
      \<lparr>calls = [[nonNullish, js_num 0, js_undefined], [js_str ''first'']], store = []\<rparr>)"
    by (simp add: invoke_def mockFnAsync_def sync_stage_def settled_def)
  note t = chain_is_composition [where M = "[js_null]" and x = nonNullish
      and stages = "[(mockFn mockReturn, [js_num 0, js_undefined]), (mockFn mockReturn, [])]"
      and w = "\<lparr>calls = [], store = [js_str ''first'']\<rparr>"
      and gs = "[(mockFnAsync mockReturn, [js_num 0, js_undefined]), (mockFnAsync mockReturn, [])]"]
  from t n1 n2 have e1:
    "(case chain (monad nonNullish [js_null])
      [(mockFn mockReturn, [js_num 0, js_undefined]), (mockFn mockReturn, [])]
      \<lparr>calls = [], store = [js_str ''first'']\<rparr> of (r, w') \<Rightarrow> (chain_value r, w')) =
     compose_left_to_right nonNullish
     [(mockFn mockReturn, [js_num 0, js_undefined]), (mockFn mockReturn, [])]
     \<lparr>calls = [], store = [js_str ''first'']\<rparr>"
    and e2: "(case chainAsync (monadAsync (Now nonNullish) [js_null])
      [(mockFnAsync mockReturn, [js_num 0, js_undefined]), (mockFnAsync mockReturn, [])]
      \<lparr>calls = [], store = [js_str ''first'']\<rparr> of
      (ast, w') \<Rightarrow> (await (async_value ast), w')) =
     compose_left_to_right nonNullish
     (map sync_stage [(mockFnAsync mockReturn, [js_num 0, js_undefined]), (mockFnAsync mockReturn, [])])
     \<lparr>calls = [], store = [js_str ''first'']\<rparr>"
    by blast+
  have h3: "not_nullish_throughout [js_undefined, JObject []] (js_str ''firstUser'')
       [(getUser, []), (getUserPreference, []), (getPreferredItemId, [])] \<lparr>calls = [], store = ()\<rparr> \<and>
     compose_left_to_right (js_str ''firstUser'')
       [(getUser, []), (getUserPreference, []), (getPreferredItemId, [])] \<lparr>calls = [], store = ()\<rparr> =
       (Inr (js_bigint 123),
        \<lparr>calls = [[js_str ''firstUser''], [JObject [(''preference'', js_str ''cycling'')]],
                [js_str ''cycling'']], store = ()\<rparr>) \<and>
     isNullish (js_bigint 123) [js_undefined, JObject []] = Inl TypeError"
    by (simp add: invoke_def isNullish_def nullish_callback_def getUser_def getUserPreference_def
        getPreferredItemId_def first_parameter_def Map_get_def userMap_def preferenceItemMap_def
        JSON_stringify_def quoteJSONString_def quoteJSONChar_def)
  have a: "map sync_stage [(getUserAsync, []), (getUserPreferenceAsync, []), (getPreferredItemIdAsync, [])] =
      ([(getUser, []), (getUserPreference, []), (getPreferredItemId, [])] :: unit stage list)"
    by (simp add: sync_stage_def getUserAsync_def getUserPreferenceAsync_def
        getPreferredItemIdAsync_def settled_asyncOf)
  note u = chain_is_composition [where M = "[js_undefined, JObject []]" and x = "js_str ''firstUser''"
      and pre = "[(getUser, []), (getUserPreference, []), (getPreferredItemId, [])]" and w = "\<lparr>calls = [], store = ()\<rparr>"
      and v = "js_bigint 123" and e = TypeError
      and ?w1.0 = "\<lparr>calls = [[js_str ''firstUser''], [JObject [(''preference'', js_str ''cycling'')]],
                [js_str ''cycling'']], store = ()\<rparr>"
      and stage = "(getItemDetails, [])" and post = "[]"
      and apre = "[(getUserAsync, []), (getUserPreferenceAsync, []), (getPreferredItemIdAsync, [])]"
      and astage = "(getItemDetailsAsync, [])" and apost = "[]"]
  from u h3 a have e3:
    "(case chain (monad (js_str ''firstUser'') [js_undefined, JObject []])
      ([(getUser, []), (getUserPreference, []), (getPreferredItemId, [])] @ (getItemDetails, []) # [])
      \<lparr>calls = [], store = ()\<rparr> of (r, w') \<Rightarrow> (chain_value r, w')) =
     (Inl TypeError,
      \<lparr>calls = [[js_str ''firstUser''], [JObject [(''preference'', js_str ''cycling'')]],
                [js_str ''cycling'']], store = ()\<rparr>)"
    and e4: "(case chainAsync (monadAsync (Now (js_str ''firstUser'')) [js_undefined, JObject []])
      ([(getUserAsync, []), (getUserPreferenceAsync, []), (getPreferredItemIdAsync, [])] @ (getItemDetailsAsync, []) # [])
      \<lparr>calls = [], store = ()\<rparr> of (ast, w') \<Rightarrow> (await (async_value ast), w')) =
     (Inl TypeError,
      \<lparr>calls = [[js_str ''firstUser''], [JObject [(''preference'', js_str ''cycling'')]],
                [js_str ''cycling'']], store = ()\<rparr>)"
    by (simp_all only: simp_thms)
  from n1 n2 c1 c2 e1 e2 h3 e3 e4 show ?thesis by (simp only: simp_thms)
qed

subsection \<open>The nullish predicate\<close>

text \<open>
  Claim C3, as the code has it. Two things stand against the claim. \<open>JSON.stringify\<close>
  throws a \<open>TypeError\<close> on a BigInt, so the predicate does not return on every value
  and marker list: with the marker \<open>{}\<close> and the value \<open>123n\<close>, of different types,
  \<open>isNullish\<close> does not answer false, it throws. And a marker and a value of different
  types can match: the marker \<open>new String("a")\<close> is of type object and has the
  serialised form of the string \<open>"a"\<close>, so the string is judged nullish.
\<close>

theorem isNullish_counterexample:
  "typeof (js_bigint 123) \<noteq> typeof (JObject []) \<and>
   isNullish (js_bigint 123) [JObject []] \<noteq> Inr False \<and>
   isNullish (js_bigint 123) [JObject []] = Inl TypeError \<and>
   typeof (JStringObject ''a'') \<noteq> typeof (js_str ''a'') \<and>
   isNullish (js_str ''a'') [JStringObject ''a''] = Inr True"
  by (simp add: isNullish_def nullish_callback_def JSON_stringify_def)

text \<open>
  Claim C3, amended. For every value and every marker list: if the comparison comes to a
  marker that is not null and of object type for which \<open>JSON.stringify\<close> throws, on the
  marker or on the value, no earlier marker matching, then \<open>isNullish\<close> throws that
  \<open>TypeError\<close>. In every other case \<open>isNullish\<close> returns, and it returns true if and
  only if some marker of the list matches the value, where a marker that is not null and
  of object type matches by equality of the serialised forms and every other marker by
  strict equality. A marker that is compared by strict equality does not match a value
  of a different type (\<open>typeof\<close>); a marker of object type matches whatever has its
  serialised form. The predicate reads its two arguments and nothing else: the model
  gives it no world to change.
\<close>

theorem isNullish_iff_some_marker_matches:
  "(comparison_throws v M \<longrightarrow> isNullish v M = Inl TypeError) \<and>
   (\<not> comparison_throws v M \<longrightarrow> isNullish v M = Inr (\<exists>m\<in>set M. marker_matches m v)) \<and>
   (typeof (Prim p) \<noteq> typeof v \<longrightarrow> \<not> marker_matches (Prim p) v)"
  using strict_equals_typeof [of p v] by (auto simp: isNullish_cases marker_matches_def)

text \<open>
  The value \<open>123n\<close> under the markers \<open>undefined\<close> and \<open>{}\<close>: the predicate throws.
  Under the markers \<open>123n\<close> and \<open>{}\<close> it returns true, the first marker matching before
  the object is reached. The string \<open>"[]"\<close> under \<open>{type: "null"}\<close>, \<open>null\<close> and \<open>[]\<close>:
  false. The marker \<open>1\<close> does not match the string \<open>"1"\<close>.
\<close>

theorem isNullish_iff_some_marker_matches_witness:
  "comparison_throws (js_bigint 123) [js_undefined, JObject []] \<and>
   isNullish (js_bigint 123) [js_undefined, JObject []] = Inl TypeError \<and>
   \<not> comparison_throws (js_bigint 123) [js_bigint 123, JObject []] \<and>
   isNullish (js_bigint 123) [js_bigint 123, JObject []] = Inr True \<and>
   \<not> comparison_throws (js_str ''[]'') [JObject [(''type'', js_str ''null'')], js_null, JArray []] \<and>
   isNullish (js_str ''[]'') [JObject [(''type'', js_str ''null'')], js_null, JArray []] = Inr False \<and>
   typeof (js_num 1) \<noteq> typeof (js_str ''1'') \<and>
   \<not> marker_matches (js_num 1) (js_str ''1'')"
proof -
  have t: "comparison_throws (js_bigint 123) [js_undefined, JObject []]"
    by (simp add: composite_def serializable_def marker_matches_def JSON_stringify_def)
  have n: "\<not> comparison_throws (js_bigint 123) [js_bigint 123, JObject []]"
    "\<not> comparison_throws (js_str ''[]'') [JObject [(''type'', js_str ''null'')], js_null, JArray []]"
    by (simp_all add: composite_def serializable_def marker_matches_def JSON_stringify_def
        quoteJSONString_def)
  have m: "marker_matches (js_bigint 123) (js_bigint 123)"
    "\<not> marker_matches (JObject [(''type'', js_str ''null'')]) (js_str ''[]'')"
    "\<not> marker_matches js_null (js_str ''[]'')"
    "\<not> marker_matches (JArray []) (js_str ''[]'')"
    by (simp_all add: marker_matches_def JSON_stringify_def quoteJSONString_def)
  have d: "typeof (js_num 1) \<noteq> typeof (js_str ''1'')" by simp
  from
    isNullish_iff_some_marker_matches [of "js_bigint 123" "[js_undefined, JObject []]"]
    isNullish_iff_some_marker_matches [of "js_bigint 123" "[js_bigint 123, JObject []]"]
    isNullish_iff_some_marker_matches [of "js_str ''[]''"
      "[JObject [(''type'', js_str ''null'')], js_null, JArray []]" "JNumber (Integer 1)"]
    isNullish_iff_some_marker_matches [of "js_str ''1''" "[]" "JNumber (Integer (word_of_int 1))"]
    t n m d
  show ?thesis by simp
qed

subsection \<open>The conditional invoker\<close>

text \<open>
  Claim C4, as the code has it. When \<open>isNullish\<close> is not true, \<open>bind\<close> does not
  always return what the callback returns: with the marker \<open>{}\<close> and the first argument
  \<open>123n\<close> the predicate throws, so \<open>bind\<close> throws the \<open>TypeError\<close> and the callback,
  which would have returned a string, is not called.
\<close>

theorem bind_counterexample:
  "isNullish (js_bigint 123) [JObject []] \<noteq> Inr True \<and>
   mockFn mockReturn [js_bigint 123] [] = (Inr mockReturn, []) \<and>
   bind (mockFn mockReturn) [JObject []] (js_bigint 123) [] \<lparr>calls = [], store = []\<rparr> =
     (Inl TypeError, \<lparr>calls = [], store = []\<rparr>)"
  by (simp add: bind_def isNullish_def nullish_callback_def JSON_stringify_def mockFn_def)

text \<open>
  Claim C4, amended. For every callback, marker list, first argument and extra
  arguments: when \<open>isNullish\<close> returns true for the first argument, \<open>bind\<close> returns that
  argument and the world is as before, whatever the callback is, so the callback was not
  called. When \<open>isNullish\<close> returns false, \<open>bind\<close> returns just what the callback
  returns (or throws) on the argument list made of the first argument followed by the
  extra arguments, unchanged; the callback is called once, on that list; and the result
  is handed back as it is, a marker value included, with no second check. When
  \<open>isNullish\<close> throws, \<open>bind\<close> throws the same exception and the world is as before:
  the callback was not called.
\<close>

theorem bind_contract:
  "(isNullish x M = Inr True \<longrightarrow> bind fn M x rest w = (Inr x, w)) \<and>
   (isNullish x M = Inr False \<longrightarrow>
      bind fn M x rest w =
        (fst (fn (x # rest) (store w)),
         \<lparr>calls = calls w @ [x # rest], store = snd (fn (x # rest) (store w))\<rparr>)) \<and>
   (isNullish x M = Inl e \<longrightarrow> bind fn M x rest w = (Inl e, w))"
  by (simp add: bind_def invoke_eq)

text \<open>
  With the marker \<open>null\<close> and a spy that returns \<open>null\<close>: on \<open>null\<close> the spy is not
  called; on a string it is called once with the string and the two extra arguments, and
  the \<open>null\<close> it returns is the result. With the marker \<open>{}\<close>, on \<open>123n\<close> the
  \<open>TypeError\<close> of the predicate is thrown and the spy is not called.
\<close>

theorem bind_contract_witness:
  "bind (mockFn js_null) [js_null] js_null [js_num 0, js_undefined] \<lparr>calls = [], store = []\<rparr> =
     (Inr js_null, \<lparr>calls = [], store = []\<rparr>) \<and>
   bind (mockFn js_null) [js_null] nonNullish [js_num 0, js_undefined]
       \<lparr>calls = [], store = []\<rparr> =
     (Inr js_null, \<lparr>calls = [[nonNullish, js_num 0, js_undefined]], store = []\<rparr>) \<and>
   isNullish (js_bigint 123) [JObject []] = Inl TypeError \<and>
   bind (mockFn js_null) [JObject []] (js_bigint 123) [js_num 0, js_undefined]
       \<lparr>calls = [], store = []\<rparr> =
     (Inl TypeError, \<lparr>calls = [], store = []\<rparr>)"
  using
    bind_contract [of js_null "[js_null]" "mockFn js_null" "[js_num 0, js_undefined]"
      "\<lparr>calls = [], store = []\<rparr>" TypeError]
    bind_contract [of nonNullish "[js_null]" "mockFn js_null" "[js_num 0, js_undefined]"
      "\<lparr>calls = [], store = []\<rparr>" TypeError]
    bind_contract [of "js_bigint 123" "[JObject []]" "mockFn js_null" "[js_num 0, js_undefined]"
      "\<lparr>calls = [], store = []\<rparr>" TypeError]
  by (simp add: isNullish_def nullish_callback_def mockFn_def JSON_stringify_def)

subsection \<open>The asynchronous invoker\<close>

text \<open>
  Claim C5. \<open>bindAsync\<close> first awaits a first argument that is a promise: a rejected
  one rejects the result and nothing else happens, a fulfilled one is treated as its
  value. On the resolved value it does what \<open>bind\<close> does with that value and the
  function the callback behaves like. Its result is a promise of a plain value, in
  every case: when the callback returns a promise, the result is that promise, not a
  promise of it; when the callback returns a value at once, the result is a promise
  fulfilled with it. The value of a step made by \<open>pipeAsync\<close> is the promise that
  \<open>bindAsync\<close> returned, and the value of the step made by \<open>monadAsync\<close> is a promise
  fulfilled with an immediate first argument, or the first argument itself when that is
  a promise. (A promise is modelled by what it settles to, so "one level" is the type
  \<open>promise\<close>: what a promise is fulfilled with is a value, never a promise.)
\<close>

theorem bindAsync_contract:
  "bindAsync g M (Later (Rejected e)) rest w = (Rejected e, w) \<and>
   bindAsync g M (Later (Fulfilled v)) rest w = bindAsync g M (Now v) rest w \<and>
   bindAsync g M (Now v) rest w =
     (case bind (settled g) M v rest w of (r, w') \<Rightarrow> (promise_of r, w')) \<and>
   (isNullish v M = Inr False \<and> g (v # rest) (store w) = (Inr (Later p), s) \<longrightarrow>
      bindAsync g M (Now v) rest w = (p, \<lparr>calls = calls w @ [v # rest], store = s\<rparr>)) \<and>
   (isNullish v M = Inr False \<and> g (v # rest) (store w) = (Inr (Now y), s) \<longrightarrow>
      bindAsync g M (Now v) rest w = (Fulfilled y, \<lparr>calls = calls w @ [v # rest], store = s\<rparr>)) \<and>
   (case pipeAsync (PipeAsync a M) g rest w of (st, w') \<Rightarrow> (async_value st, w')) =
     bindAsync g M a rest w \<and>
   async_value (monadAsync (Now x) M) = Fulfilled x \<and>
   async_value (monadAsync (Later q) M) = q"
proof -
  have flat: "bindAsync g M (Now v) rest w = (async_return r, \<lparr>calls = calls w @ [v # rest], store = s\<rparr>)"
    if "isNullish v M = Inr False" "g (v # rest) (store w) = (r, s)" for r s
    using that by (simp add: bindAsync_def invoke_eq)
  have step: "(case pipeAsync (PipeAsync a M) g rest w of (st, w') \<Rightarrow> (async_value st, w')) =
     bindAsync g M a rest w"
    by (simp split: prod.splits)
  show ?thesis
    using flat [of "Inr (Later p)" s] flat [of "Inr (Now y)" s] step
    by (simp add: bindAsync_bind monadAsync_def)
qed

text \<open>
  A callback that returns a fulfilled promise and one that returns the value at once give
  the same promise of the value.
\<close>

theorem bindAsync_contract_witness:
  "isNullish nonNullish [js_null] = Inr False \<and>
   mockFnAsync mockReturn [nonNullish] [] = (Inr (Later (Fulfilled mockReturn)), []) \<and>
   bindAsync (mockFnAsync mockReturn) [js_null] (Now nonNullish) [] \<lparr>calls = [], store = []\<rparr> =
     (Fulfilled mockReturn, \<lparr>calls = [[nonNullish]], store = []\<rparr>) \<and>
   bindAsync (\<lambda>args s. (Inr (Now mockReturn), s)) [js_null] (Now nonNullish) []
       \<lparr>calls = [], store = ()\<rparr> =
     (Fulfilled mockReturn, \<lparr>calls = [[nonNullish]], store = ()\<rparr>)"
proof -
  have n: "isNullish nonNullish [js_null] = Inr False"
    by (simp add: isNullish_def nullish_callback_def)
  have g: "mockFnAsync mockReturn [nonNullish] [] = (Inr (Later (Fulfilled mockReturn)), [])"
    by (simp add: mockFnAsync_def)
  have a: "bindAsync (mockFnAsync mockReturn) [js_null] (Now nonNullish) []
       \<lparr>calls = [], store = []\<rparr> =
     (Fulfilled mockReturn, \<lparr>calls = [[nonNullish]], store = []\<rparr>)"
    using n g
      bindAsync_contract [where g = "mockFnAsync mockReturn" and M = "[js_null]"
        and v = nonNullish and rest = "[]" and w = "\<lparr>calls = [], store = []\<rparr>"
        and p = "Fulfilled mockReturn" and s = "[]" and y = mockReturn and a = "Now nonNullish"
        and x = nonNullish and q = "Fulfilled mockReturn" and e = TypeError,
        THEN conjunct2, THEN conjunct2, THEN conjunct2, THEN conjunct1]
    by simp
  have b: "bindAsync (\<lambda>args s. (Inr (Now mockReturn), s)) [js_null] (Now nonNullish) []
       \<lparr>calls = [], store = ()\<rparr> =
     (Fulfilled mockReturn, \<lparr>calls = [[nonNullish]], store = ()\<rparr>)"
    using n
      bindAsync_contract [where g = "\<lambda>args s. (Inr (Now mockReturn), s)" and M = "[js_null]"
        and v = nonNullish and rest = "[]" and w = "\<lparr>calls = [], store = ()\<rparr>"
        and p = "Fulfilled mockReturn" and s = "()" and y = mockReturn and a = "Now nonNullish"
        and x = nonNullish and q = "Fulfilled mockReturn" and e = TypeError,
        THEN conjunct2, THEN conjunct2, THEN conjunct2, THEN conjunct2, THEN conjunct1]
    by simp
  from n g a b show ?thesis by (simp only: simp_thms)
qed

subsection \<open>Asynchronous and synchronous chains agree\<close>

text \<open>
  Claim C6. Let the stages of a synchronous chain and of an asynchronous chain
  correspond one to one, each pair with the same extra arguments and with functions of
  the same behaviour: on every argument list and store, what the asynchronous function
  gives once settled is what the synchronous one gives. Then, from the same initial
  value, markers and world, what the final promise of the asynchronous chain settles to
  is the final value of the synchronous chain (or the same failure), and both leave the
  same world.
\<close>

theorem async_sync_equivalence:
  "list_all2 same_behaviour fs gs \<Longrightarrow>
   (case chainAsync (monadAsync (Now x) M) gs w of (ast, w') \<Rightarrow> (await (async_value ast), w')) =
   (case chain (monad x M) fs w of (r, w') \<Rightarrow> (chain_value r, w'))"
proof -
  assume "list_all2 same_behaviour fs gs"
  then have "fs = map sync_stage gs" by (rule same_behaviour_map)
  then show ?thesis by (simp add: chainAsync_monadAsync)
qed

text \<open>
  Three stages of spies, synchronous and asynchronous, answering \<open>first\<close>, then \<open>null\<close>:
  both chains end with \<open>null\<close> after two calls.
\<close>

theorem async_sync_equivalence_witness:
  "list_all2 same_behaviour
     [(mockFn mockReturn, [js_num 0]), (mockFn mockReturn, []), (mockFn mockReturn, [])]
     [(mockFnAsync mockReturn, [js_num 0]), (mockFnAsync mockReturn, []),
      (mockFnAsync mockReturn, [])] \<and>
   (case chain (monad nonNullish [js_null])
      [(mockFn mockReturn, [js_num 0]), (mockFn mockReturn, []), (mockFn mockReturn, [])]
      \<lparr>calls = [], store = [js_str ''first'', js_null]\<rparr> of
      (r, w') \<Rightarrow> (chain_value r, w')) =
     (Inr js_null, \<lparr>calls = [[nonNullish, js_num 0], [js_str ''first'']], store = []\<rparr>) \<and>
   (case chainAsync (monadAsync (Now nonNullish) [js_null])
      [(mockFnAsync mockReturn, [js_num 0]), (mockFnAsync mockReturn, []),
       (mockFnAsync mockReturn, [])]
      \<lparr>calls = [], store = [js_str ''first'', js_null]\<rparr> of
      (ast, w') \<Rightarrow> (await (async_value ast), w')) =
     (Inr js_null, \<lparr>calls = [[nonNullish, js_num 0], [js_str ''first'']], store = []\<rparr>)"
proof -
  have b: "same_behaviour (mockFn mockReturn, rest) (mockFnAsync mockReturn, rest)" for rest
    by (simp add: same_behaviour_def settled_def mockFn_def mockFnAsync_def split: list.splits)
  then have h: "list_all2 same_behaviour
     [(mockFn mockReturn, [js_num 0]), (mockFn mockReturn, []), (mockFn mockReturn, [])]
     [(mockFnAsync mockReturn, [js_num 0]), (mockFnAsync mockReturn, []),
      (mockFnAsync mockReturn, [])]"
    by simp
  have c: "(case chain (monad nonNullish [js_null])
      [(mockFn mockReturn, [js_num 0]), (mockFn mockReturn, []), (mockFn mockReturn, [])]
      \<lparr>calls = [], store = [js_str ''first'', js_null]\<rparr> of
      (r, w') \<Rightarrow> (chain_value r, w')) =
     (Inr js_null, \<lparr>calls = [[nonNullish, js_num 0], [js_str ''first'']], store = []\<rparr>)"
    by (simp add: monad_def bind_def invoke_def mockFn_def isNullish_def nullish_callback_def)
  from async_sync_equivalence [OF h, of nonNullish "[js_null]"
      "\<lparr>calls = [], store = [js_str ''first'', js_null]\<rparr>"] h c
  show ?thesis by (simp only: simp_thms)
qed

subsection \<open>Failures of user functions\<close>



subsection \<open>The setup wrappers\<close>

text \<open>
  Claim C8. \<open>monadSetup(...M)(fn, x, ...rest)\<close> is \<open>monad(x, ...M).pipe(fn, ...rest)\<close>,
  and \<open>monadAsyncSetup\<close> is the same over \<open>monadAsync\<close> and \<open>pipeAsync\<close>. With the
  markers \<open>-1\<close> and \<open>null\<close>: on the first argument \<open>-1\<close> the step returned has the value
  \<open>-1\<close> and the world is as before, whatever the function is, so it was not called; on
  \<open>undefined\<close> the function is called on \<open>undefined\<close> and the extra arguments, and what
  it returns is the value of the step (what it throws is thrown). The asynchronous
  wrapper gives promises of the same.
\<close>

theorem setup_is_sugar:
  "monadSetup M fn x rest w = pipe (step_pipe (monad x M)) fn rest w \<and>
   monadAsyncSetup M g a rest w = pipeAsync (async_pipe (monadAsync a M)) g rest w \<and>
   monadSetup [js_num (- 1), js_null] fn (js_num (- 1)) rest w =
     (Inr (monad (js_num (- 1)) [js_num (- 1), js_null]), w) \<and>
   monadSetup [js_num (- 1), js_null] fn js_undefined rest w =
     (case invoke fn (js_undefined # rest) w of
        (Inl e, w') \<Rightarrow> (Inl e, w')
      | (Inr v, w') \<Rightarrow> (Inr (monad v [js_num (- 1), js_null]), w')) \<and>
   (case monadAsyncSetup [js_num (- 1), js_null] g (Now (js_num (- 1))) rest w of
      (st, w') \<Rightarrow> (async_value st, w')) = (Fulfilled (js_num (- 1)), w) \<and>
   (case monadAsyncSetup [js_num (- 1), js_null] g (Now js_undefined) rest w of
      (st, w') \<Rightarrow> (async_value st, w')) =
     (case invoke g (js_undefined # rest) w of (r, w') \<Rightarrow> (async_return r, w'))"
  by (simp add: monadSetup_def monadAsyncSetup_def monad_def monadAsync_def bind_def bindAsync_def
      isNullish_def nullish_callback_def split: prod.splits sum.splits)

subsection \<open>No markers, no short circuit\<close>

text \<open>
  Claim C9. With the empty marker list \<open>isNullish\<close> answers false for every value, so
  \<open>bind\<close> is the call of the callback, whatever the first argument is, \<open>undefined\<close> and
  \<open>null\<close> included. A chain that \<open>monad\<close> or \<open>monadAsync\<close> starts with no markers is
  therefore the plain composition of its functions: every continuation calls its
  function on the current value (up to a function that throws, which ends the chain).
\<close>

theorem empty_markers_never_short_circuit:
  "isNullish v [] = Inr False \<and>
   bind fn [] v rest w = invoke fn (v # rest) w \<and>
   (case chain (monad x []) stages w of (r, w') \<Rightarrow> (chain_value r, w')) =
      compose_left_to_right x stages w \<and>
   (case chainAsync (monadAsync (Now x) []) gs w of (ast, w') \<Rightarrow> (await (async_value ast), w')) =
      compose_left_to_right x (map sync_stage gs) w"
proof -
  have n: "isNullish v [] = Inr False" by (simp add: isNullish_def)
  then have b: "bind fn [] v rest w = invoke fn (v # rest) w" by (simp add: bind_def)
  have s: "(case chain (monad x []) stages w of (r, w') \<Rightarrow> (chain_value r, w')) =
      compose_left_to_right x stages w"
    using chain_from_compose [OF not_nullish_throughout_empty, of x stages w] by simp
  have a: "(case chainAsync (monadAsync (Now x) []) gs w of
        (ast, w') \<Rightarrow> (await (async_value ast), w')) =
      compose_left_to_right x (map sync_stage gs) w"
    using chain_from_compose [OF not_nullish_throughout_empty, of x "map sync_stage gs" w]
    by (simp add: chainAsync_monadAsync del: chain_from.simps(2))
  from n b s a show ?thesis by blast
qed

subsection \<open>Serialised form against structure\<close>

text \<open>
  Claim C10. Matching by serialised form is not structural equality. The value
  \<open>{a: undefined}\<close> is judged nullish under the marker \<open>{}\<close>, though the two are not
  structurally equal: serialisation leaves out a property whose value is \<open>undefined\<close>.
  And \<open>{b: 2, a: 1}\<close> is not judged nullish under the marker \<open>{a: 1, b: 2}\<close>, though
  the two are structurally equal: their keys are serialised in different orders.
\<close>

theorem serialised_form_is_not_structure:
  "isNullish (JObject [(''a'', js_undefined)]) [JObject []] = Inr True \<and>
   \<not> struct_eq (JObject []) (JObject [(''a'', js_undefined)]) \<and>
   isNullish (JObject [(''b'', js_num 2), (''a'', js_num 1)])
      [JObject [(''a'', js_num 1), (''b'', js_num 2)]] = Inr False \<and>
   struct_eq (JObject [(''a'', js_num 1), (''b'', js_num 2)])
      (JObject [(''b'', js_num 2), (''a'', js_num 1)])"
  by (simp add: isNullish_def nullish_callback_def JSON_stringify_def quoteJSONString_def
      quoteJSONChar_def digits.simps digit_char_def)

end
